theory Spec2Isabelle
  imports Complex_Main "HOL-Library.Sublist"
begin

section \<open>Data model of \<open>agents/prophet_agent/deploy.py\<close>\<close>

text \<open>
  The module defines one class, \<open>DeployableTraderAgentER\<close>, with four methods
  (\<open>recently_betted\<close>, \<open>pick_markets\<close>, \<open>calculate_bet_amount\<close>,
  \<open>answer_binary_market\<close>) and four subclasses that only rebind the class attributes
  \<open>agent\<close> and \<open>max_markets_per_run\<close>.

  Python's \<open>float\<close> is modelled by \<open>real\<close>: the stake policy is read as exact
  arithmetic, rounding is not modelled. Python's \<open>int\<close> is \<open>int\<close>, \<open>str\<close> is
  \<open>string\<close>. The market passed in is a snapshot; the external services answer the same
  way during one run. The only exception written in the module is the one raised by
  \<open>should_not_happen\<close>; it is the \<open>Inl\<close> branch of every result below.
\<close>

datatype market_kind = ManifoldAgentMarket | OmenAgentMarket | OtherAgentMarket

datatype currency = Mana | xDai

datatype bet_amount = BetAmount (amount: real) (bet_currency: currency)

record market =
  kind :: market_kind
  question :: string
  current_p_yes :: real
  currency :: currency
  liquidity_in_xdai :: real
  tiny_bet_amount :: bet_amount

record answer =
  decision :: bool
  p_yes :: real
  confidence :: real

record prediction =
  outcome_prediction :: "answer option"

datatype error = ShouldNotHappen string

subsection \<open>Effects: the logger and the outbound calls\<close>

datatype level = INFO | WARNING | ERROR

datatype message =
    LookingIfRecentlyBet string
  | RecentlyBettedSkipping
  | VerifyingPredictability string
  | MarketIsPredictable string
  | ExceedingLimit real currency real bet_amount
  | PredictionFailed string
  | Answering string bool

type_synonym log_line = "level \<times> message"

datatype outbound =
    GetAuthenticatedUser string
  | GetManifoldBets string int
  | GetManifoldMarket string
  | OmenGetBets string int
  | IsPredictable string
  | Predict string

record effects =
  logged :: "log_line list"
  calls :: "outbound list"

definition logger :: "level \<Rightarrow> message \<Rightarrow> effects \<Rightarrow> effects" where
  "logger lv msg s = s\<lparr>logged := logged s @ [(lv, msg)]\<rparr>"

definition call :: "outbound list \<Rightarrow> effects \<Rightarrow> effects" where
  "call cs s = s\<lparr>calls := calls s @ cs\<rparr>"

definition no_effects :: effects where
  "no_effects = \<lparr>logged = [], calls = []\<rparr>"

subsection \<open>The collaborators the module imports\<close>

text \<open>
  The clock, the credentials and the two bet-history providers. Times are seconds.
  \<open>get_manifold_bets\<close> takes the user id and the start time and yields the
  \<open>contractId\<close> of each bet; \<open>get_manifold_market\<close> maps a \<open>contractId\<close> to
  the question of that market; \<open>omen_get_bets\<close> takes the better address and the start
  time and yields the \<open>title\<close> of each bet.
\<close>

record world =
  utcnow :: int
  manifold_api_key :: string
  public_key :: string
  get_authenticated_user :: "string \<Rightarrow> string"
  get_manifold_bets :: "string \<Rightarrow> int \<Rightarrow> string list"
  get_manifold_market :: "string \<Rightarrow> string"
  omen_get_bets :: "string \<Rightarrow> int \<Rightarrow> string list"

text \<open>
  The functions of \<open>prediction_market_agent_tooling\<close> that the stake policy calls.
  Their bodies are not part of this module, so they are parameters.
\<close>

record tooling =
  prob_uncertainty :: "real \<Rightarrow> real"
  stretch_bet_between :: "real \<Rightarrow> real \<Rightarrow> real \<Rightarrow> real"
  get_minimum_bet_to_win :: "market \<Rightarrow> bool \<Rightarrow> real \<Rightarrow> real"

text \<open>The \<open>AbstractBenchmarkedAgent\<close> bound to the class attribute \<open>agent\<close>.\<close>

record benchmarked_agent =
  is_predictable :: "string \<Rightarrow> bool"
  predict :: "string \<Rightarrow> prediction"

datatype deployable =
    DeployableTraderAgentER
  | DeployablePredictionProphetGPT3Agent
  | DeployablePredictionProphetGPT4TurboPreviewAgent
  | DeployablePredictionProphetGPT4TurboFinalAgent
  | DeployableOlasEmbeddingOAAgent

fun max_markets_per_run :: "deployable \<Rightarrow> int" where
  "max_markets_per_run DeployableTraderAgentER = 5"
| "max_markets_per_run DeployablePredictionProphetGPT3Agent = 5"
| "max_markets_per_run DeployablePredictionProphetGPT4TurboPreviewAgent = 1"
| "max_markets_per_run DeployablePredictionProphetGPT4TurboFinalAgent = 1"
| "max_markets_per_run DeployableOlasEmbeddingOAAgent = 5"

record trader =
  cls :: deployable
  agent :: benchmarked_agent

section \<open>The methods\<close>

subsection \<open>\<open>recently_betted\<close>\<close>

definition start_time :: "world \<Rightarrow> int" where
  "start_time w = utcnow w - 24 * 3600"

definition manifold_bet_contracts :: "world \<Rightarrow> string list" where
  "manifold_bet_contracts w =
     get_manifold_bets w (get_authenticated_user w (manifold_api_key w)) (start_time w)"

definition recently_betted_questions :: "world \<Rightarrow> market_kind \<Rightarrow> error + string set" where
  "recently_betted_questions w k =
     (case k of
        ManifoldAgentMarket \<Rightarrow>
          Inr (set (map (get_manifold_market w) (manifold_bet_contracts w)))
      | OmenAgentMarket \<Rightarrow>
          Inr (set (omen_get_bets w (public_key w) (start_time w)))
      | OtherAgentMarket \<Rightarrow> Inl (ShouldNotHappen ''Uknown market''))"

definition history_calls :: "world \<Rightarrow> market_kind \<Rightarrow> outbound list" where
  "history_calls w k =
     (case k of
        ManifoldAgentMarket \<Rightarrow>
          [GetAuthenticatedUser (manifold_api_key w),
           GetManifoldBets (get_authenticated_user w (manifold_api_key w)) (start_time w)]
          @ map GetManifoldMarket (manifold_bet_contracts w)
      | OmenAgentMarket \<Rightarrow> [OmenGetBets (public_key w) (start_time w)]
      | OtherAgentMarket \<Rightarrow> [])"

definition recently_betted :: "world \<Rightarrow> market \<Rightarrow> effects \<Rightarrow> (error + bool) \<times> effects" where
  "recently_betted w m s =
     (let s' = call (history_calls w (kind m)) s in
      case recently_betted_questions w (kind m) of
        Inl e \<Rightarrow> (Inl e, s')
      | Inr qs \<Rightarrow> (Inr (question m \<in> qs), s'))"

subsection \<open>\<open>pick_markets\<close>\<close>

text \<open>
  The \<open>for\<close> loop, with \<open>picked_markets\<close> and the effects as accumulators. The
  \<open>continue\<close> of a recently betted market goes to the next market without the length
  test; the length test at the end of the body is the \<open>break\<close>.
\<close>

fun pick_loop ::
  "trader \<Rightarrow> world \<Rightarrow> market list \<Rightarrow> market list \<Rightarrow> effects \<Rightarrow> (error + market list) \<times> effects"
where
  "pick_loop self w [] picked s = (Inr picked, s)"
| "pick_loop self w (m # ms) picked s =
     (let s1 = logger INFO (LookingIfRecentlyBet (question m)) s in
      case recently_betted w m s1 of
        (Inl e, s2) \<Rightarrow> (Inl e, s2)
      | (Inr True, s2) \<Rightarrow> pick_loop self w ms picked (logger INFO RecentlyBettedSkipping s2)
      | (Inr False, s2) \<Rightarrow>
          (let s3 = logger INFO (VerifyingPredictability (question m)) s2;
               s4 = call [IsPredictable (question m)] s3;
               (picked', s5) =
                 (if is_predictable (agent self) (question m)
                  then (picked @ [m], logger INFO (MarketIsPredictable (question m)) s4)
                  else (picked, s4))
           in if int (length picked') \<ge> max_markets_per_run (cls self)
              then (Inr picked', s5)
              else pick_loop self w ms picked' s5))"

definition pick_markets ::
  "trader \<Rightarrow> world \<Rightarrow> market list \<Rightarrow> effects \<Rightarrow> (error + market list) \<times> effects"
where
  "pick_markets self w markets s = pick_loop self w markets [] s"

subsection \<open>\<open>calculate_bet_amount\<close>\<close>

text \<open>
  The \<open>if\<close>/\<open>elif\<close>/\<open>else\<close> on the market type, which binds \<open>amount\<close> and
  \<open>max_bet_amount\<close> or raises.
\<close>

definition omen_base_amount :: "tooling \<Rightarrow> market \<Rightarrow> real" where
  "omen_base_amount t m =
     stretch_bet_between t (prob_uncertainty t (current_p_yes m)) 0.5 1.0"

definition amount_and_max_bet_amount :: "tooling \<Rightarrow> answer \<Rightarrow> market \<Rightarrow> error + real \<times> real" where
  "amount_and_max_bet_amount t a m =
     (case kind m of
        ManifoldAgentMarket \<Rightarrow> Inr (get_minimum_bet_to_win t m (decision a) 1, 10.0)
      | OmenAgentMarket \<Rightarrow>
          (let market_liquidity = liquidity_in_xdai m;
               amount0 = omen_base_amount t m;
               amount1 = (if decision a = (current_p_yes m > 0.5)
                          then amount0 * 0.75 else amount0 * 1.25);
               max_bet_amount = (if market_liquidity > 5 then 2.0
                                 else if market_liquidity > 1 then 0.1 else 0)
           in Inr (amount1, max_bet_amount))
      | OtherAgentMarket \<Rightarrow> Inl (ShouldNotHappen ''Unknown market type''))"

definition calculate_bet_amount ::
  "tooling \<Rightarrow> answer \<Rightarrow> market \<Rightarrow> effects \<Rightarrow> (error + bet_amount) \<times> effects"
where
  "calculate_bet_amount t a m s =
     (case amount_and_max_bet_amount t a m of
        Inl e \<Rightarrow> (Inl e, s)
      | Inr (amount0, max_bet_amount) \<Rightarrow>
          if amount0 > max_bet_amount
          then (Inr (BetAmount (amount (tiny_bet_amount m)) (currency m)),
                logger WARNING
                  (ExceedingLimit amount0 (currency m) max_bet_amount (tiny_bet_amount m)) s)
          else (Inr (BetAmount amount0 (currency m)), s))"

subsection \<open>\<open>answer_binary_market\<close>\<close>

definition answer_binary_market :: "trader \<Rightarrow> market \<Rightarrow> effects \<Rightarrow> answer option \<times> effects" where
  "answer_binary_market self m s =
     (let s1 = call [Predict (question m)] s;
          prediciton = predict (agent self) (question m)
      in case outcome_prediction prediciton of
           None \<Rightarrow> (None, logger ERROR (PredictionFailed (question m)) s1)
         | Some ans \<Rightarrow> (Some ans, logger INFO (Answering (question m) (decision ans)) s1))"

section \<open>Observations on a run of \<open>pick_markets\<close>\<close>

text \<open>
  The effects of one pass through the loop body up to the recency test, and up to the
  end of the predictability test.
\<close>

definition after_recency :: "world \<Rightarrow> market \<Rightarrow> effects \<Rightarrow> effects" where
  "after_recency w m s =
     call (history_calls w (kind m)) (logger INFO (LookingIfRecentlyBet (question m)) s)"

definition after_predictability :: "trader \<Rightarrow> world \<Rightarrow> market \<Rightarrow> effects \<Rightarrow> effects" where
  "after_predictability self w m s =
     (let s4 = call [IsPredictable (question m)]
                 (logger INFO (VerifyingPredictability (question m)) (after_recency w m s))
      in if is_predictable (agent self) (question m)
         then logger INFO (MarketIsPredictable (question m)) s4 else s4)"

text \<open>The calls that fetch a bet history, and how many of them a run has made.\<close>

fun is_history_fetch :: "outbound \<Rightarrow> bool" where
  "is_history_fetch (GetManifoldBets u t) = True"
| "is_history_fetch (OmenGetBets a t) = True"
| "is_history_fetch c = False"

definition history_fetches :: "effects \<Rightarrow> nat" where
  "history_fetches s = length (filter is_history_fetch (calls s))"

text \<open>The first line of every pass through the loop body, and how many were logged.\<close>

fun is_looking :: "log_line \<Rightarrow> bool" where
  "is_looking (lv, LookingIfRecentlyBet q) = True"
| "is_looking l = False"

definition markets_looked_at :: "effects \<Rightarrow> nat" where
  "markets_looked_at s = length (filter is_looking (logged s))"

text \<open>The lines that one pass through the loop body logs for a market.\<close>

definition market_lines :: "trader \<Rightarrow> world \<Rightarrow> market \<Rightarrow> log_line list" where
  "market_lines self w m =
     (INFO, LookingIfRecentlyBet (question m)) #
     (case recently_betted_questions w (kind m) of
        Inl e \<Rightarrow> []
      | Inr qs \<Rightarrow>
          if question m \<in> qs then [(INFO, RecentlyBettedSkipping)]
          else (INFO, VerifyingPredictability (question m)) #
               (if is_predictable (agent self) (question m)
                then [(INFO, MarketIsPredictable (question m))] else []))"

section \<open>Concrete inputs\<close>

text \<open>
  An instance of the tooling for evaluation: \<open>stretch_bet_between\<close> is the linear map
  \<open>min_bet + (max_bet - min_bet) * probability\<close>, and the uncertainty is the tent
  \<open>1 - \<bar>2 p - 1\<bar>\<close>, which is 1 at \<open>p = 1/2\<close> and 0 at \<open>p = 0\<close> and
  \<open>p = 1\<close>, as the binary entropy is. The markets below sit on these points.
  \<open>get_minimum_bet_to_win\<close> asks 2 for a yes and 12 for a no.
\<close>

definition tooling0 :: tooling where
  "tooling0 =
     \<lparr>prob_uncertainty = (\<lambda>p. 1 - \<bar>2 * p - 1\<bar>),
      stretch_bet_between = (\<lambda>p lo hi. lo + (hi - lo) * p),
      get_minimum_bet_to_win = (\<lambda>m d w. if d then 2 else 12)\<rparr>"

definition omen_shallow :: market where
  "omen_shallow =
     \<lparr>kind = OmenAgentMarket, question = ''Will it rain?'', current_p_yes = 1,
      currency = xDai, liquidity_in_xdai = 3, tiny_bet_amount = BetAmount (1 / 100000) xDai\<rparr>"

definition omen_deep :: market where
  "omen_deep =
     \<lparr>kind = OmenAgentMarket, question = ''Will it snow?'', current_p_yes = 1 / 2,
      currency = xDai, liquidity_in_xdai = 10, tiny_bet_amount = BetAmount (1 / 100000) xDai\<rparr>"

definition omen_dry :: market where
  "omen_dry =
     \<lparr>kind = OmenAgentMarket, question = ''Will it hail?'', current_p_yes = 1 / 2,
      currency = xDai, liquidity_in_xdai = 1 / 2, tiny_bet_amount = BetAmount (1 / 100000) xDai\<rparr>"

definition manifold0 :: market where
  "manifold0 =
     \<lparr>kind = ManifoldAgentMarket, question = ''Will it thunder?'', current_p_yes = 1 / 2,
      currency = Mana, liquidity_in_xdai = 0, tiny_bet_amount = BetAmount 1 Mana\<rparr>"

definition other0 :: market where
  "other0 =
     \<lparr>kind = OtherAgentMarket, question = ''Will it freeze?'', current_p_yes = 1 / 2,
      currency = xDai, liquidity_in_xdai = 10, tiny_bet_amount = BetAmount (1 / 100000) xDai\<rparr>"

definition yes0 :: answer where
  "yes0 = \<lparr>decision = True, p_yes = 9 / 10, confidence = 8 / 10\<rparr>"

definition no0 :: answer where
  "no0 = yes0\<lparr>decision := False\<rparr>"

text \<open>
  A world in which the agent has bet on one question on each platform during the last
  24 hours, and an agent that finds every question predictable except the hail one and
  has no outcome prediction for the thunder one.
\<close>

definition world0 :: world where
  "world0 =
     \<lparr>utcnow = 1000000, manifold_api_key = ''key'', public_key = ''0xabc'',
      get_authenticated_user = (\<lambda>k. ''user''),
      get_manifold_bets = (\<lambda>u t. [''contract1'']),
      get_manifold_market = (\<lambda>c. ''Will it thunder?''),
      omen_get_bets = (\<lambda>a t. [''Will it rain?''])\<rparr>"

definition agent0 :: benchmarked_agent where
  "agent0 =
     \<lparr>is_predictable = (\<lambda>q. q \<noteq> ''Will it hail?''),
      predict = (\<lambda>q. \<lparr>outcome_prediction =
                  (if q = ''Will it thunder?'' then None else Some yes0)\<rparr>)\<rparr>"

definition trader0 :: trader where
  "trader0 = \<lparr>cls = DeployablePredictionProphetGPT4TurboFinalAgent, agent = agent0\<rparr>"

definition trader5 :: trader where
  "trader5 = \<lparr>cls = DeployablePredictionProphetGPT3Agent, agent = agent0\<rparr>"

section \<open>Evaluation rules shared by the proofs\<close>

lemmas stake_defs =
  calculate_bet_amount_def amount_and_max_bet_amount_def omen_base_amount_def

lemmas input_defs =
  tooling0_def omen_shallow_def omen_deep_def omen_dry_def manifold0_def other0_def
  yes0_def no0_def world0_def agent0_def trader0_def trader5_def

lemmas effect_defs = no_effects_def logger_def call_def

lemmas history_defs =
  recently_betted_def recently_betted_questions_def history_calls_def
  manifold_bet_contracts_def start_time_def

section \<open>The stake sizer\<close>

text \<open>
  C1. Whenever \<open>calculate_bet_amount\<close> returns a bet, the returned amount is at most
  the maximum that applies to the market, except when the computed amount exceeds that
  maximum: then the returned amount is exactly the amount of the market's tiny bet and one
  warning naming the computed amount, the currency, the maximum and the tiny bet is
  logged. In both cases the bet is in the market's currency, and nothing is logged when
  the computed amount is kept.
\<close>

theorem calculate_bet_amount_within_max:
  assumes "calculate_bet_amount t a m s = (Inr b, s')"
  shows "\<exists>x cap. amount_and_max_bet_amount t a m = Inr (x, cap) \<and>
           bet_currency b = currency m \<and>
           (if x > cap
            then amount b = amount (tiny_bet_amount m) \<and>
                 s' = logger WARNING (ExceedingLimit x (currency m) cap (tiny_bet_amount m)) s
            else amount b = x \<and> amount b \<le> cap \<and> s' = s)"
proof (cases "amount_and_max_bet_amount t a m")
  case (Inl e)
  with assms show ?thesis by (simp add: calculate_bet_amount_def)
next
  case (Inr p)
  obtain x cap where p: "p = (x, cap)" by (cases p)
  show ?thesis
  proof (cases "x > cap")
    case True
    with assms Inr p show ?thesis by (auto simp: calculate_bet_amount_def)
  next
    case False
    with assms Inr p show ?thesis by (auto simp: calculate_bet_amount_def)
  qed
qed

theorem calculate_bet_amount_within_max_witness:
  "calculate_bet_amount tooling0 no0 manifold0 no_effects =
     (Inr (BetAmount 1 Mana),
      \<lparr>logged = [(WARNING, ExceedingLimit 12 Mana 10 (BetAmount 1 Mana))], calls = []\<rparr>) \<and>
   (\<exists>x cap. amount_and_max_bet_amount tooling0 no0 manifold0 = Inr (x, cap) \<and>
      bet_currency (BetAmount 1 Mana) = currency manifold0 \<and>
      (if x > cap
       then amount (BetAmount 1 Mana) = amount (tiny_bet_amount manifold0) \<and>
            \<lparr>logged = [(WARNING, ExceedingLimit 12 Mana 10 (BetAmount 1 Mana))], calls = []\<rparr> =
              logger WARNING
                (ExceedingLimit x (currency manifold0) cap (tiny_bet_amount manifold0)) no_effects
       else amount (BetAmount 1 Mana) = x \<and> amount (BetAmount 1 Mana) \<le> cap \<and>
            \<lparr>logged = [(WARNING, ExceedingLimit 12 Mana 10 (BetAmount 1 Mana))], calls = []\<rparr> =
              no_effects))"
proof -
  have h: "calculate_bet_amount tooling0 no0 manifold0 no_effects =
     (Inr (BetAmount 1 Mana),
      \<lparr>logged = [(WARNING, ExceedingLimit 12 Mana 10 (BetAmount 1 Mana))], calls = []\<rparr>)"
    by (simp add: stake_defs input_defs effect_defs)
  from h calculate_bet_amount_within_max [OF h] show ?thesis by (rule conjI)
qed

text \<open>
  C5. The maximum is 10 for a Manifold market, where the computed amount is
  \<open>get_minimum_bet_to_win\<close> for the answer's decision and an amount to win of 1. For an
  Omen market the maximum is 2 when the liquidity is above 5, 0.1 when it is above 1 and
  at most 5, and 0 when it is at most 1.
\<close>

theorem max_bet_amount_tiers:
  "(kind m = ManifoldAgentMarket \<longrightarrow>
      amount_and_max_bet_amount t a m = Inr (get_minimum_bet_to_win t m (decision a) 1, 10)) \<and>
   (kind m = OmenAgentMarket \<and> liquidity_in_xdai m > 5 \<longrightarrow>
      (\<exists>x. amount_and_max_bet_amount t a m = Inr (x, 2))) \<and>
   (kind m = OmenAgentMarket \<and> 1 < liquidity_in_xdai m \<and> liquidity_in_xdai m \<le> 5 \<longrightarrow>
      (\<exists>x. amount_and_max_bet_amount t a m = Inr (x, 1 / 10))) \<and>
   (kind m = OmenAgentMarket \<and> liquidity_in_xdai m \<le> 1 \<longrightarrow>
      (\<exists>x. amount_and_max_bet_amount t a m = Inr (x, 0)))"
  by (simp add: amount_and_max_bet_amount_def Let_def)

theorem max_bet_amount_tiers_witness:
  "(kind manifold0 = ManifoldAgentMarket \<and>
      amount_and_max_bet_amount tooling0 yes0 manifold0 = Inr (2, 10)) \<and>
   (kind omen_deep = OmenAgentMarket \<and> liquidity_in_xdai omen_deep > 5 \<and>
      (\<exists>x. amount_and_max_bet_amount tooling0 yes0 omen_deep = Inr (x, 2))) \<and>
   (kind omen_shallow = OmenAgentMarket \<and> 1 < liquidity_in_xdai omen_shallow \<and>
      liquidity_in_xdai omen_shallow \<le> 5 \<and>
      (\<exists>x. amount_and_max_bet_amount tooling0 yes0 omen_shallow = Inr (x, 1 / 10))) \<and>
   (kind omen_dry = OmenAgentMarket \<and> liquidity_in_xdai omen_dry \<le> 1 \<and>
      (\<exists>x. amount_and_max_bet_amount tooling0 yes0 omen_dry = Inr (x, 0)))"
  using max_bet_amount_tiers [of manifold0 tooling0 yes0]
    max_bet_amount_tiers [of omen_deep tooling0 yes0]
    max_bet_amount_tiers [of omen_shallow tooling0 yes0]
    max_bet_amount_tiers [of omen_dry tooling0 yes0]
  by (simp add: input_defs)

text \<open>
  C10. For an Omen market with liquidity at most 5 whose base stake lies in the range
  [0.5, 1.0] that it is stretched into, the adjusted amount is at least 0.375, the
  maximum is at most 0.1, and \<open>calculate_bet_amount\<close> returns the amount of the market's
  tiny bet with the warning.
\<close>

theorem omen_low_liquidity_tiny_bet:
  assumes "kind m = OmenAgentMarket" and "liquidity_in_xdai m \<le> 5"
    and "1 / 2 \<le> omen_base_amount t m" and "omen_base_amount t m \<le> 1"
  shows "\<exists>x cap. amount_and_max_bet_amount t a m = Inr (x, cap) \<and>
           3 / 8 \<le> x \<and> cap \<le> 1 / 10 \<and> cap < x \<and>
           calculate_bet_amount t a m s =
             (Inr (BetAmount (amount (tiny_bet_amount m)) (currency m)),
              logger WARNING (ExceedingLimit x (currency m) cap (tiny_bet_amount m)) s)"
proof -
  define x where "x = (if decision a = (current_p_yes m > 0.5)
                       then omen_base_amount t m * 0.75 else omen_base_amount t m * 1.25)"
  define cap :: real where "cap = (if liquidity_in_xdai m > 1 then 0.1 else 0)"
  have am: "amount_and_max_bet_amount t a m = Inr (x, cap)"
    using assms(1,2) by (simp add: amount_and_max_bet_amount_def Let_def x_def cap_def)
  have lo: "3 / 8 \<le> x" using assms(3) by (simp add: x_def)
  have hi: "cap \<le> 1 / 10" by (simp add: cap_def)
  have gt: "cap < x" using lo hi by simp
  have "calculate_bet_amount t a m s =
          (Inr (BetAmount (amount (tiny_bet_amount m)) (currency m)),
           logger WARNING (ExceedingLimit x (currency m) cap (tiny_bet_amount m)) s)"
    using am gt by (simp add: calculate_bet_amount_def)
  with am lo hi gt show ?thesis by blast
qed

theorem omen_low_liquidity_tiny_bet_witness:
  "(kind omen_shallow = OmenAgentMarket \<and> liquidity_in_xdai omen_shallow \<le> 5 \<and>
    1 / 2 \<le> omen_base_amount tooling0 omen_shallow \<and>
    omen_base_amount tooling0 omen_shallow \<le> 1) \<and>
   (\<exists>x cap. amount_and_max_bet_amount tooling0 yes0 omen_shallow = Inr (x, cap) \<and>
      3 / 8 \<le> x \<and> cap \<le> 1 / 10 \<and> cap < x \<and>
      calculate_bet_amount tooling0 yes0 omen_shallow no_effects =
        (Inr (BetAmount (amount (tiny_bet_amount omen_shallow)) (currency omen_shallow)),
         logger WARNING
           (ExceedingLimit x (currency omen_shallow) cap (tiny_bet_amount omen_shallow))
           no_effects))"
proof -
  have h1: "kind omen_shallow = OmenAgentMarket" by (simp add: omen_shallow_def)
  have h2: "liquidity_in_xdai omen_shallow \<le> 5" by (simp add: omen_shallow_def)
  have h3: "1 / 2 \<le> omen_base_amount tooling0 omen_shallow"
    by (simp add: omen_base_amount_def tooling0_def omen_shallow_def)
  have h4: "omen_base_amount tooling0 omen_shallow \<le> 1"
    by (simp add: omen_base_amount_def tooling0_def omen_shallow_def)
  from h1 h2 h3 h4 omen_low_liquidity_tiny_bet [OF h1 h2 h3 h4, of yes0 no_effects]
  show ?thesis by blast
qed


text \<open>
  C4, as stated, fails: on an Omen market with liquidity 3 and current probability 1,
  the answer that agrees with the lean and the one that disagrees both get the tiny
  bet, so the agreeing stake is not strictly smaller.
\<close>

theorem directional_bias_counterexample:
  "kind omen_shallow = OmenAgentMarket \<and>
   decision yes0 = (current_p_yes omen_shallow > 0.5) \<and>
   decision (yes0\<lparr>decision := False\<rparr>) \<noteq> (current_p_yes omen_shallow > 0.5) \<and>
   fst (calculate_bet_amount tooling0 yes0 omen_shallow no_effects) =
     Inr (BetAmount (1 / 100000) xDai) \<and>
   fst (calculate_bet_amount tooling0 (yes0\<lparr>decision := False\<rparr>) omen_shallow no_effects) =
     Inr (BetAmount (1 / 100000) xDai)"
  by (simp add: stake_defs input_defs)

text \<open>
  C4, amended. On an Omen market with liquidity above 5 whose base stake lies in
  [0.5, 1.0], the answer that agrees with the lean is staked at 0.75 times the base and
  the one that disagrees at 1.25 times the base, without substitution and without a
  warning; the first is strictly smaller and the two are in the ratio 0.75 to 1.25.
\<close>

theorem directional_bias_liquid:
  assumes "kind m = OmenAgentMarket" and "liquidity_in_xdai m > 5"
    and "1 / 2 \<le> omen_base_amount t m" and "omen_base_amount t m \<le> 1"
    and "decision a1 = (current_p_yes m > 0.5)"
    and "decision a2 \<noteq> (current_p_yes m > 0.5)"
  shows "calculate_bet_amount t a1 m s =
           (Inr (BetAmount (omen_base_amount t m * 0.75) (currency m)), s) \<and>
         calculate_bet_amount t a2 m s =
           (Inr (BetAmount (omen_base_amount t m * 1.25) (currency m)), s) \<and>
         omen_base_amount t m * 0.75 < omen_base_amount t m * 1.25 \<and>
         (omen_base_amount t m * 0.75) * 1.25 = (omen_base_amount t m * 1.25) * 0.75"
proof -
  have a1: "amount_and_max_bet_amount t a1 m = Inr (omen_base_amount t m * 0.75, 2)"
    using assms(1,2,5) by (simp add: amount_and_max_bet_amount_def Let_def)
  have a2: "amount_and_max_bet_amount t a2 m = Inr (omen_base_amount t m * 1.25, 2)"
    using assms(1,2,6) by (simp add: amount_and_max_bet_amount_def Let_def)
  have b1: "\<not> omen_base_amount t m * 0.75 > 2" using assms(4) by simp
  have b2: "\<not> omen_base_amount t m * 1.25 > 2" using assms(4) by simp
  have c1: "calculate_bet_amount t a1 m s =
           (Inr (BetAmount (omen_base_amount t m * 0.75) (currency m)), s)"
    using a1 b1 by (simp add: calculate_bet_amount_def)
  have c2: "calculate_bet_amount t a2 m s =
           (Inr (BetAmount (omen_base_amount t m * 1.25) (currency m)), s)"
    using a2 b2 by (simp add: calculate_bet_amount_def)
  have lt: "omen_base_amount t m * 0.75 < omen_base_amount t m * 1.25"
    using assms(3) by simp
  from c1 c2 lt show ?thesis by simp
qed

theorem directional_bias_liquid_witness:
  "(kind omen_deep = OmenAgentMarket \<and> liquidity_in_xdai omen_deep > 5 \<and>
    1 / 2 \<le> omen_base_amount tooling0 omen_deep \<and> omen_base_amount tooling0 omen_deep \<le> 1 \<and>
    decision no0 = (current_p_yes omen_deep > 0.5) \<and>
    decision yes0 \<noteq> (current_p_yes omen_deep > 0.5)) \<and>
   calculate_bet_amount tooling0 no0 omen_deep no_effects =
     (Inr (BetAmount (3 / 4) xDai), no_effects) \<and>
   calculate_bet_amount tooling0 yes0 omen_deep no_effects =
     (Inr (BetAmount (5 / 4) xDai), no_effects)"
proof -
  have h1: "kind omen_deep = OmenAgentMarket" by (simp add: omen_deep_def)
  have h2: "liquidity_in_xdai omen_deep > 5" by (simp add: omen_deep_def)
  have b: "omen_base_amount tooling0 omen_deep = 1"
    by (simp add: omen_base_amount_def tooling0_def omen_deep_def)
  have h3: "1 / 2 \<le> omen_base_amount tooling0 omen_deep" by (simp add: b)
  have h4: "omen_base_amount tooling0 omen_deep \<le> 1" by (simp add: b)
  have h5: "decision no0 = (current_p_yes omen_deep > 0.5)"
    by (simp add: no0_def yes0_def omen_deep_def)
  have h6: "decision yes0 \<noteq> (current_p_yes omen_deep > 0.5)"
    by (simp add: yes0_def omen_deep_def)
  have c: "currency omen_deep = xDai" by (simp add: omen_deep_def)
  from h1 h2 h3 h4 h5 h6 directional_bias_liquid [OF h1 h2 h3 h4 h5 h6, of no_effects]
  show ?thesis by (simp add: b c)
qed

section \<open>The answer resolver\<close>

text \<open>
  C6. \<open>answer_binary_market\<close> returns the oracle's outcome prediction as it is: no
  answer exactly when the oracle has none, and then one error line is logged and nothing
  is raised; otherwise the oracle's answer itself. The oracle is called exactly once.
\<close>

theorem answer_binary_market_passes_prediction:
  "fst (answer_binary_market self m s) = outcome_prediction (predict (agent self) (question m)) \<and>
   (fst (answer_binary_market self m s) = None \<longleftrightarrow>
      outcome_prediction (predict (agent self) (question m)) = None) \<and>
   calls (snd (answer_binary_market self m s)) = calls s @ [Predict (question m)] \<and>
   (outcome_prediction (predict (agent self) (question m)) = None \<longrightarrow>
      logged (snd (answer_binary_market self m s)) =
        logged s @ [(ERROR, PredictionFailed (question m))]) \<and>
   (\<forall>ans. outcome_prediction (predict (agent self) (question m)) = Some ans \<longrightarrow>
      logged (snd (answer_binary_market self m s)) =
        logged s @ [(INFO, Answering (question m) (decision ans))])"
  by (simp add: answer_binary_market_def Let_def logger_def call_def split: option.splits)

theorem answer_binary_market_passes_prediction_witness:
  "(outcome_prediction (predict (agent trader0) (question manifold0)) = None \<and>
    fst (answer_binary_market trader0 manifold0 no_effects) = None \<and>
    logged (snd (answer_binary_market trader0 manifold0 no_effects)) =
      [(ERROR, PredictionFailed ''Will it thunder?'')] \<and>
    calls (snd (answer_binary_market trader0 manifold0 no_effects)) =
      [Predict ''Will it thunder?'']) \<and>
   (outcome_prediction (predict (agent trader0) (question omen_deep)) = Some yes0 \<and>
    fst (answer_binary_market trader0 omen_deep no_effects) = Some yes0 \<and>
    logged (snd (answer_binary_market trader0 omen_deep no_effects)) =
      [(INFO, Answering ''Will it snow?'' True)])"
proof -
  have n: "outcome_prediction (predict (agent trader0) ''Will it thunder?'') = None"
    by (simp add: trader0_def agent0_def)
  have y: "outcome_prediction (predict (agent trader0) ''Will it snow?'') = Some yes0"
    by (simp add: trader0_def agent0_def)
  have q1: "question manifold0 = ''Will it thunder?''" by (simp add: manifold0_def)
  have q2: "question omen_deep = ''Will it snow?''" by (simp add: omen_deep_def)
  have d: "decision yes0 = True" by (simp add: yes0_def)
  show ?thesis
    using answer_binary_market_passes_prediction [of trader0 manifold0 no_effects]
      answer_binary_market_passes_prediction [of trader0 omen_deep no_effects]
    by (simp add: n y q1 q2 d no_effects_def)
qed

section \<open>Unknown market types\<close>

text \<open>
  C7. For a market that is neither a Manifold nor an Omen market, \<open>recently_betted\<close>
  raises the \<open>should_not_happen\<close> error; the loop of \<open>pick_markets\<close> does not catch it,
  so a run that reaches such a market ends with that error; and
  \<open>calculate_bet_amount\<close> raises it as well, returning no bet and logging nothing.
\<close>

theorem unknown_market_fails_fast:
  assumes "kind m = OtherAgentMarket"
  shows "recently_betted w m s = (Inl (ShouldNotHappen ''Uknown market''), s) \<and>
         pick_loop self w (m # ms) picked s =
           (Inl (ShouldNotHappen ''Uknown market''),
            logger INFO (LookingIfRecentlyBet (question m)) s) \<and>
         pick_markets self w (m # ms) s =
           (Inl (ShouldNotHappen ''Uknown market''),
            logger INFO (LookingIfRecentlyBet (question m)) s) \<and>
         calculate_bet_amount t a m s = (Inl (ShouldNotHappen ''Unknown market type''), s)"
proof -
  have r: "recently_betted w m s' = (Inl (ShouldNotHappen ''Uknown market''), s')" for s'
    using assms by (simp add: history_defs call_def)
  have l: "pick_loop self w (m # ms) acc s =
           (Inl (ShouldNotHappen ''Uknown market''),
            logger INFO (LookingIfRecentlyBet (question m)) s)" for acc
    by (simp add: r)
  have c: "calculate_bet_amount t a m s = (Inl (ShouldNotHappen ''Unknown market type''), s)"
    using assms by (simp add: stake_defs)
  from r l c show ?thesis by (simp add: pick_markets_def)
qed

theorem unknown_market_fails_fast_witness:
  "kind other0 = OtherAgentMarket \<and>
   recently_betted world0 other0 no_effects = (Inl (ShouldNotHappen ''Uknown market''), no_effects) \<and>
   pick_markets trader5 world0 [omen_deep, other0, manifold0] no_effects =
     (Inl (ShouldNotHappen ''Uknown market''),
      \<lparr>logged = [(INFO, LookingIfRecentlyBet ''Will it snow?''),
                 (INFO, VerifyingPredictability ''Will it snow?''),
                 (INFO, MarketIsPredictable ''Will it snow?''),
                 (INFO, LookingIfRecentlyBet ''Will it freeze?'')],
       calls = [OmenGetBets ''0xabc'' 913600, IsPredictable ''Will it snow?'']\<rparr>) \<and>
   calculate_bet_amount tooling0 yes0 other0 no_effects =
     (Inl (ShouldNotHappen ''Unknown market type''), no_effects)"
proof -
  have h: "kind other0 = OtherAgentMarket" by (simp add: other0_def)
  note u = unknown_market_fails_fast [OF h]
  have q: "question other0 = ''Will it freeze?''" by (simp add: other0_def)
  have r: "recently_betted world0 omen_deep s =
             (Inr False, call [OmenGetBets ''0xabc'' 913600] s)" for s
    by (simp add: history_defs world0_def omen_deep_def)
  have q': "question omen_deep = ''Will it snow?''" by (simp add: omen_deep_def)
  have p: "pick_markets trader5 world0 [omen_deep, other0, manifold0] no_effects =
      pick_loop trader5 world0 (other0 # [manifold0]) [omen_deep]
        \<lparr>logged = [(INFO, LookingIfRecentlyBet ''Will it snow?''),
                 (INFO, VerifyingPredictability ''Will it snow?''),
                 (INFO, MarketIsPredictable ''Will it snow?'')],
         calls = [OmenGetBets ''0xabc'' 913600, IsPredictable ''Will it snow?'']\<rparr>"
    by (simp add: pick_markets_def r q' Let_def trader5_def agent0_def effect_defs)
  show ?thesis
    using h u [of world0 no_effects trader5 "[manifold0]" "[omen_deep]" tooling0 yes0]
      u [of world0 "\<lparr>logged = [(INFO, LookingIfRecentlyBet ''Will it snow?''),
                 (INFO, VerifyingPredictability ''Will it snow?''),
                 (INFO, MarketIsPredictable ''Will it snow?'')],
         calls = [OmenGetBets ''0xabc'' 913600, IsPredictable ''Will it snow?'']\<rparr>"
         trader5 "[manifold0]" "[omen_deep]" tooling0 yes0]
    by (simp add: p q logger_def)
qed


section \<open>The market selector\<close>

subsection \<open>One pass through the loop body\<close>

lemma recently_betted_unknown:
  "recently_betted_questions w (kind m) = Inl e \<Longrightarrow>
   recently_betted w m s = (Inl e, call (history_calls w (kind m)) s)"
  by (simp add: recently_betted_def)

lemma recently_betted_known:
  "recently_betted_questions w (kind m) = Inr qs \<Longrightarrow>
   recently_betted w m s = (Inr (question m \<in> qs), call (history_calls w (kind m)) s)"
  by (simp add: recently_betted_def)

lemma pick_loop_raises:
  "recently_betted_questions w (kind m) = Inl e \<Longrightarrow>
   pick_loop self w (m # ms) acc s = (Inl e, after_recency w m s)"
  by (simp add: recently_betted_unknown after_recency_def)

lemma pick_loop_skips:
  "recently_betted_questions w (kind m) = Inr qs \<Longrightarrow> question m \<in> qs \<Longrightarrow>
   pick_loop self w (m # ms) acc s =
     pick_loop self w ms acc (logger INFO RecentlyBettedSkipping (after_recency w m s))"
  by (simp add: recently_betted_known after_recency_def)

lemma pick_loop_verifies:
  "recently_betted_questions w (kind m) = Inr qs \<Longrightarrow> question m \<notin> qs \<Longrightarrow>
   pick_loop self w (m # ms) acc s =
     (let acc' = (if is_predictable (agent self) (question m) then acc @ [m] else acc)
      in if int (length acc') \<ge> max_markets_per_run (cls self)
         then (Inr acc', after_predictability self w m s)
         else pick_loop self w ms acc' (after_predictability self w m s))"
  by (simp add: recently_betted_known after_recency_def after_predictability_def Let_def)

lemma pick_loop_Cons_cases [consumes 1]:
  assumes "pick_loop self w (m # ms) acc s = (Inr picked, s')"
  obtains
    (skip) qs where "recently_betted_questions w (kind m) = Inr qs" and "question m \<in> qs"
      and "pick_loop self w ms acc (logger INFO RecentlyBettedSkipping (after_recency w m s)) =
             (Inr picked, s')"
  | (stop) qs where "recently_betted_questions w (kind m) = Inr qs" and "question m \<notin> qs"
      and "picked = (if is_predictable (agent self) (question m) then acc @ [m] else acc)"
      and "int (length picked) \<ge> max_markets_per_run (cls self)"
      and "s' = after_predictability self w m s"
  | (continue) qs acc' where "recently_betted_questions w (kind m) = Inr qs" and "question m \<notin> qs"
      and "acc' = (if is_predictable (agent self) (question m) then acc @ [m] else acc)"
      and "int (length acc') < max_markets_per_run (cls self)"
      and "pick_loop self w ms acc' (after_predictability self w m s) = (Inr picked, s')"
proof (cases "recently_betted_questions w (kind m)")
  case (Inl e)
  with assms show ?thesis by (simp add: pick_loop_raises del: pick_loop.simps)
next
  case (Inr qs)
  show ?thesis
  proof (cases "question m \<in> qs")
    case True
    with assms Inr skip show ?thesis by (simp add: pick_loop_skips del: pick_loop.simps)
  next
    case False
    define acc' where "acc' = (if is_predictable (agent self) (question m) then acc @ [m] else acc)"
    show ?thesis
    proof (cases "int (length acc') \<ge> max_markets_per_run (cls self)")
      case True
      with assms Inr False have "picked = acc'" "s' = after_predictability self w m s"
        by (simp_all add: pick_loop_verifies acc'_def del: pick_loop.simps)
      with True Inr False stop show ?thesis by (simp add: acc'_def)
    next
      case c: False
      with assms Inr False
      have "pick_loop self w ms acc' (after_predictability self w m s) = (Inr picked, s')"
        by (simp add: pick_loop_verifies acc'_def del: pick_loop.simps)
      with c Inr False continue [of qs acc'] show ?thesis by (simp add: acc'_def)
    qed
  qed
qed

lemma max_markets_per_run_positive: "1 \<le> max_markets_per_run c"
  by (cases c) simp_all

subsection \<open>What the loop returns\<close>

lemma pick_loop_picked:
  assumes "pick_loop self w ms acc s = (Inr picked, s')"
    and "int (length acc) < max_markets_per_run (cls self)"
  shows "int (length picked) \<le> max_markets_per_run (cls self) \<and>
         (\<exists>ys. picked = acc @ ys \<and> subseq ys ms)"
  using assms
proof (induction ms arbitrary: acc s)
  case Nil
  then show ?case by simp
next
  case (Cons m ms)
  from Cons.prems(1) show ?case
  proof (cases rule: pick_loop_Cons_cases)
    case (skip qs)
    from Cons.IH [OF skip(3) Cons.prems(2)] show ?thesis by auto
  next
    case (stop qs)
    with Cons.prems(2) show ?thesis by (auto split: if_splits)
  next
    case (continue qs acc')
    from Cons.IH [OF continue(5) continue(4)]
    obtain ys where b: "int (length picked) \<le> max_markets_per_run (cls self)"
      and p: "picked = acc' @ ys" and e: "subseq ys ms" by blast
    show ?thesis
    proof (cases "is_predictable (agent self) (question m)")
      case True
      with continue(3) p have "picked = acc @ (m # ys)" by simp
      moreover from e have "subseq (m # ys) (m # ms)" by simp
      ultimately show ?thesis using b by blast
    next
      case False
      with continue(3) p have "picked = acc @ ys" by simp
      moreover from e have "subseq ys (m # ms)" by (rule list_emb_Cons)
      ultimately show ?thesis using b by blast
    qed
  qed
qed

lemma pick_loop_not_recent:
  assumes "pick_loop self w ms acc s = (Inr picked, s')" and "x \<in> set picked"
  shows "x \<in> set acc \<or>
         (\<exists>qs. recently_betted_questions w (kind x) = Inr qs \<and> question x \<notin> qs \<and>
               is_predictable (agent self) (question x))"
  using assms
proof (induction ms arbitrary: acc s)
  case Nil
  then show ?case by simp
next
  case (Cons m ms)
  from Cons.prems(1) show ?case
  proof (cases rule: pick_loop_Cons_cases)
    case (skip qs)
    from Cons.IH [OF skip(3) Cons.prems(2)] show ?thesis .
  next
    case (stop qs)
    with Cons.prems(2) show ?thesis by (auto split: if_splits)
  next
    case (continue qs acc')
    from Cons.IH [OF continue(5) Cons.prems(2)] continue(1,2,3)
    show ?thesis by (auto split: if_splits)
  qed
qed

subsection \<open>What the loop logs and calls\<close>

lemma filter_history_fetch_markets:
  "filter is_history_fetch (map GetManifoldMarket cs) = []"
  by (induction cs) simp_all

lemma filter_history_fetch_calls:
  "k \<noteq> OtherAgentMarket \<Longrightarrow> length (filter is_history_fetch (history_calls w k)) = 1"
  by (cases k) (simp_all add: history_calls_def filter_history_fetch_markets)

lemma after_recency_effects:
  assumes "recently_betted_questions w (kind m) = Inr qs"
  shows "logged (after_recency w m s) = logged s @ [(INFO, LookingIfRecentlyBet (question m))]"
    and "history_fetches (after_recency w m s) = Suc (history_fetches s)"
    and "markets_looked_at (after_recency w m s) = Suc (markets_looked_at s)"
proof -
  from assms have k: "kind m \<noteq> OtherAgentMarket"
    by (auto simp: recently_betted_questions_def)
  show "logged (after_recency w m s) = logged s @ [(INFO, LookingIfRecentlyBet (question m))]"
    by (simp add: after_recency_def call_def logger_def)
  show "history_fetches (after_recency w m s) = Suc (history_fetches s)"
    by (simp add: after_recency_def call_def logger_def history_fetches_def
        filter_history_fetch_calls [OF k])
  show "markets_looked_at (after_recency w m s) = Suc (markets_looked_at s)"
    by (simp add: after_recency_def call_def logger_def markets_looked_at_def)
qed

lemma skipping_effects:
  assumes "recently_betted_questions w (kind m) = Inr qs" and "question m \<in> qs"
  shows "logged (logger INFO RecentlyBettedSkipping (after_recency w m s)) =
           logged s @ market_lines self w m"
    and "history_fetches (logger INFO RecentlyBettedSkipping (after_recency w m s)) =
           Suc (history_fetches s)"
    and "markets_looked_at (logger INFO RecentlyBettedSkipping (after_recency w m s)) =
           Suc (markets_looked_at s)"
proof -
  note r = after_recency_effects [OF assms(1), of s]
  show "logged (logger INFO RecentlyBettedSkipping (after_recency w m s)) =
           logged s @ market_lines self w m"
    using assms r(1) by (simp add: logger_def market_lines_def)
  show "history_fetches (logger INFO RecentlyBettedSkipping (after_recency w m s)) =
           Suc (history_fetches s)"
    using r(2) by (simp add: logger_def history_fetches_def)
  show "markets_looked_at (logger INFO RecentlyBettedSkipping (after_recency w m s)) =
           Suc (markets_looked_at s)"
    using r(3) by (simp add: logger_def markets_looked_at_def)
qed

lemma after_predictability_effects:
  assumes "recently_betted_questions w (kind m) = Inr qs" and "question m \<notin> qs"
  shows "logged (after_predictability self w m s) = logged s @ market_lines self w m"
    and "history_fetches (after_predictability self w m s) = Suc (history_fetches s)"
    and "markets_looked_at (after_predictability self w m s) = Suc (markets_looked_at s)"
proof -
  note r = after_recency_effects [OF assms(1), of s]
  show "logged (after_predictability self w m s) = logged s @ market_lines self w m"
    using assms r(1)
    by (simp add: after_predictability_def Let_def logger_def call_def market_lines_def)
  show "history_fetches (after_predictability self w m s) = Suc (history_fetches s)"
    using r(2)
    by (simp add: after_predictability_def Let_def logger_def call_def history_fetches_def)
  show "markets_looked_at (after_predictability self w m s) = Suc (markets_looked_at s)"
    using r(3)
    by (simp add: after_predictability_def Let_def logger_def call_def markets_looked_at_def)
qed

lemma pick_loop_effects:
  assumes "pick_loop self w ms acc s = (Inr picked, s')"
  shows "\<exists>n\<le>length ms.
           logged s' = logged s @ concat (map (market_lines self w) (take n ms)) \<and>
           history_fetches s' = history_fetches s + n \<and>
           markets_looked_at s' = markets_looked_at s + n \<and>
           (int (length picked) < max_markets_per_run (cls self) \<longrightarrow> n = length ms)"
  using assms
proof (induction ms arbitrary: acc s)
  case Nil
  then show ?case by simp
next
  case (Cons m ms)
  from Cons.prems show ?case
  proof (cases rule: pick_loop_Cons_cases)
    case (skip qs)
    note e = skipping_effects [OF skip(1,2)]
    from Cons.IH [OF skip(3)] obtain n where n: "n \<le> length ms"
      "logged s' = logged (logger INFO RecentlyBettedSkipping (after_recency w m s)) @
         concat (map (market_lines self w) (take n ms))"
      "history_fetches s' =
         history_fetches (logger INFO RecentlyBettedSkipping (after_recency w m s)) + n"
      "markets_looked_at s' =
         markets_looked_at (logger INFO RecentlyBettedSkipping (after_recency w m s)) + n"
      "int (length picked) < max_markets_per_run (cls self) \<longrightarrow> n = length ms"
      by blast
    have "Suc n \<le> length (m # ms)" using n(1) by simp
    moreover have "logged s' =
        logged s @ concat (map (market_lines self w) (take (Suc n) (m # ms)))"
      using n(2) e(1) by simp
    moreover have "history_fetches s' = history_fetches s + Suc n"
      using n(3) e(2) by simp
    moreover have "markets_looked_at s' = markets_looked_at s + Suc n"
      using n(4) e(3) by simp
    moreover have "int (length picked) < max_markets_per_run (cls self) \<longrightarrow>
        Suc n = length (m # ms)"
      using n(5) by simp
    ultimately show ?thesis by blast
  next
    case (stop qs)
    note e = after_predictability_effects [OF stop(1,2)]
    have "Suc 0 \<le> length (m # ms)" by simp
    moreover have "logged s' =
        logged s @ concat (map (market_lines self w) (take (Suc 0) (m # ms)))"
      using stop(5) e(1) by simp
    moreover have "history_fetches s' = history_fetches s + Suc 0"
      using stop(5) e(2) by simp
    moreover have "markets_looked_at s' = markets_looked_at s + Suc 0"
      using stop(5) e(3) by simp
    moreover have "int (length picked) < max_markets_per_run (cls self) \<longrightarrow>
        Suc 0 = length (m # ms)"
      using stop(4) by simp
    ultimately show ?thesis by blast
  next
    case (continue qs acc')
    note e = after_predictability_effects [OF continue(1,2)]
    from Cons.IH [OF continue(5)] obtain n where n: "n \<le> length ms"
      "logged s' = logged (after_predictability self w m s) @
         concat (map (market_lines self w) (take n ms))"
      "history_fetches s' = history_fetches (after_predictability self w m s) + n"
      "markets_looked_at s' = markets_looked_at (after_predictability self w m s) + n"
      "int (length picked) < max_markets_per_run (cls self) \<longrightarrow> n = length ms"
      by blast
    have "Suc n \<le> length (m # ms)" using n(1) by simp
    moreover have "logged s' =
        logged s @ concat (map (market_lines self w) (take (Suc n) (m # ms)))"
      using n(2) e(1) by simp
    moreover have "history_fetches s' = history_fetches s + Suc n"
      using n(3) e(2) by simp
    moreover have "markets_looked_at s' = markets_looked_at s + Suc n"
      using n(4) e(3) by simp
    moreover have "int (length picked) < max_markets_per_run (cls self) \<longrightarrow>
        Suc n = length (m # ms)"
      using n(5) by simp
    ultimately show ?thesis by blast
  qed
qed

subsection \<open>Runs on the concrete inputs\<close>

lemma world0_recently_betted:
  "recently_betted world0 omen_shallow s =
     (Inr True, call [OmenGetBets ''0xabc'' 913600] s)"
  "recently_betted world0 omen_dry s =
     (Inr False, call [OmenGetBets ''0xabc'' 913600] s)"
  "recently_betted world0 omen_deep s =
     (Inr False, call [OmenGetBets ''0xabc'' 913600] s)"
  "recently_betted world0 manifold0 s =
     (Inr True, call [GetAuthenticatedUser ''key'', GetManifoldBets ''user'' 913600,
                      GetManifoldMarket ''contract1''] s)"
  by (simp_all add: history_defs world0_def omen_shallow_def omen_dry_def omen_deep_def
      manifold0_def)

lemma questions0:
  "question omen_shallow = ''Will it rain?''"
  "question omen_dry = ''Will it hail?''"
  "question omen_deep = ''Will it snow?''"
  "question manifold0 = ''Will it thunder?''"
  by (simp_all add: omen_shallow_def omen_dry_def omen_deep_def manifold0_def)

lemma run_trader0:
  "pick_markets trader0 world0 [omen_shallow, omen_dry, omen_deep, manifold0] no_effects =
     (Inr [omen_deep],
      \<lparr>logged = [(INFO, LookingIfRecentlyBet ''Will it rain?''),
                 (INFO, RecentlyBettedSkipping),
                 (INFO, LookingIfRecentlyBet ''Will it hail?''),
                 (INFO, VerifyingPredictability ''Will it hail?''),
                 (INFO, LookingIfRecentlyBet ''Will it snow?''),
                 (INFO, VerifyingPredictability ''Will it snow?''),
                 (INFO, MarketIsPredictable ''Will it snow?'')],
       calls = [OmenGetBets ''0xabc'' 913600,
                OmenGetBets ''0xabc'' 913600, IsPredictable ''Will it hail?'',
                OmenGetBets ''0xabc'' 913600, IsPredictable ''Will it snow?'']\<rparr>)"
  by (simp add: pick_markets_def world0_recently_betted questions0 Let_def trader0_def
      agent0_def effect_defs)

lemma run_trader5:
  "pick_markets trader5 world0 [omen_deep, omen_dry] no_effects =
     (Inr [omen_deep],
      \<lparr>logged = [(INFO, LookingIfRecentlyBet ''Will it snow?''),
                 (INFO, VerifyingPredictability ''Will it snow?''),
                 (INFO, MarketIsPredictable ''Will it snow?''),
                 (INFO, LookingIfRecentlyBet ''Will it hail?''),
                 (INFO, VerifyingPredictability ''Will it hail?'')],
       calls = [OmenGetBets ''0xabc'' 913600, IsPredictable ''Will it snow?'',
                OmenGetBets ''0xabc'' 913600, IsPredictable ''Will it hail?'']\<rparr>)"
  by (simp add: pick_markets_def world0_recently_betted questions0 Let_def trader5_def
      agent0_def effect_defs)


subsection \<open>The claims on \<open>pick_markets\<close>\<close>

text \<open>
  C2. Whatever the candidates, the markets that \<open>pick_markets\<close> returns are at most
  \<open>max_markets_per_run\<close> of the agent's class (5 in the base class) and form a
  subsequence of the candidates, in their order.
\<close>

theorem pick_markets_bounded_subsequence:
  assumes "pick_markets self w markets s = (Inr picked, s')"
  shows "int (length picked) \<le> max_markets_per_run (cls self) \<and> subseq picked markets \<and>
         max_markets_per_run DeployableTraderAgentER = 5"
proof -
  have "int (length ([] :: market list)) < max_markets_per_run (cls self)"
    using max_markets_per_run_positive [of "cls self"] by simp
  with assms pick_loop_picked [of self w markets "[]" s picked s']
  show ?thesis by (simp add: pick_markets_def)
qed

theorem pick_markets_bounded_subsequence_witness:
  "pick_markets trader0 world0 [omen_shallow, omen_dry, omen_deep, manifold0] no_effects =
     (Inr [omen_deep],
      \<lparr>logged = [(INFO, LookingIfRecentlyBet ''Will it rain?''),
                 (INFO, RecentlyBettedSkipping),
                 (INFO, LookingIfRecentlyBet ''Will it hail?''),
                 (INFO, VerifyingPredictability ''Will it hail?''),
                 (INFO, LookingIfRecentlyBet ''Will it snow?''),
                 (INFO, VerifyingPredictability ''Will it snow?''),
                 (INFO, MarketIsPredictable ''Will it snow?'')],
       calls = [OmenGetBets ''0xabc'' 913600,
                OmenGetBets ''0xabc'' 913600, IsPredictable ''Will it hail?'',
                OmenGetBets ''0xabc'' 913600, IsPredictable ''Will it snow?'']\<rparr>) \<and>
   (int (length [omen_deep]) \<le> max_markets_per_run (cls trader0) \<and>
    subseq [omen_deep] [omen_shallow, omen_dry, omen_deep, manifold0] \<and>
    max_markets_per_run DeployableTraderAgentER = 5)"
  using run_trader0 pick_markets_bounded_subsequence [OF run_trader0] by (rule conjI)

text \<open>
  C3. A candidate whose question is in the set of questions that the bet history of its
  platform yields for the last 24 hours is not among the markets that \<open>pick_markets\<close>
  returns, whatever the predictability oracle answers for it.
\<close>

theorem pick_markets_excludes_recently_betted:
  assumes "pick_markets self w markets s = (Inr picked, s')"
    and "recently_betted_questions w (kind m) = Inr qs" and "question m \<in> qs"
  shows "m \<notin> set picked"
proof
  assume "m \<in> set picked"
  with assms(1) pick_loop_not_recent [of self w markets "[]" s picked s' m]
  obtain qs' where "recently_betted_questions w (kind m) = Inr qs'" and "question m \<notin> qs'"
    by (auto simp: pick_markets_def)
  with assms(2,3) show False by simp
qed

theorem pick_markets_excludes_recently_betted_witness:
  "(pick_markets trader0 world0 [omen_shallow, omen_dry, omen_deep, manifold0] no_effects =
     (Inr [omen_deep],
      \<lparr>logged = [(INFO, LookingIfRecentlyBet ''Will it rain?''),
                 (INFO, RecentlyBettedSkipping),
                 (INFO, LookingIfRecentlyBet ''Will it hail?''),
                 (INFO, VerifyingPredictability ''Will it hail?''),
                 (INFO, LookingIfRecentlyBet ''Will it snow?''),
                 (INFO, VerifyingPredictability ''Will it snow?''),
                 (INFO, MarketIsPredictable ''Will it snow?'')],
       calls = [OmenGetBets ''0xabc'' 913600,
                OmenGetBets ''0xabc'' 913600, IsPredictable ''Will it hail?'',
                OmenGetBets ''0xabc'' 913600, IsPredictable ''Will it snow?'']\<rparr>) \<and>
    recently_betted_questions world0 (kind omen_shallow) = Inr {''Will it rain?''} \<and>
    question omen_shallow \<in> {''Will it rain?''} \<and>
    is_predictable (agent trader0) (question omen_shallow)) \<and>
   omen_shallow \<notin> set [omen_deep]"
proof -
  have h2: "recently_betted_questions world0 (kind omen_shallow) = Inr {''Will it rain?''}"
    by (simp add: recently_betted_questions_def world0_def omen_shallow_def)
  have h3: "question omen_shallow \<in> {''Will it rain?''}"
    by (simp add: omen_shallow_def)
  have p: "is_predictable (agent trader0) (question omen_shallow)"
    by (simp add: trader0_def agent0_def omen_shallow_def)
  from run_trader0 h2 h3 p pick_markets_excludes_recently_betted [OF run_trader0 h2 h3]
  show ?thesis by blast
qed

text \<open>
  C8, as stated, fails: a run over two markets of the same platform fetches the bet
  history of that platform twice.
\<close>

theorem history_fetch_once_counterexample:
  "kind omen_deep = OmenAgentMarket \<and> kind omen_dry = OmenAgentMarket \<and>
   calls (snd (pick_markets trader5 world0 [omen_deep, omen_dry] no_effects)) =
     [OmenGetBets ''0xabc'' 913600, IsPredictable ''Will it snow?'',
      OmenGetBets ''0xabc'' 913600, IsPredictable ''Will it hail?''] \<and>
   history_fetches (snd (pick_markets trader5 world0 [omen_deep, omen_dry] no_effects)) = 2"
proof -
  have "kind omen_deep = OmenAgentMarket" and "kind omen_dry = OmenAgentMarket"
    by (simp_all add: omen_deep_def omen_dry_def)
  then show ?thesis by (simp add: run_trader5 history_fetches_def)
qed

text \<open>
  C8, amended. A run of \<open>pick_markets\<close> that returns fetches a bet history once for
  every market the loop looks at, so the number of history fetches is the number of
  markets looked at: at most the number of candidates, and exactly that number when
  fewer than \<open>max_markets_per_run\<close> markets are picked.
\<close>

theorem history_fetch_per_market:
  assumes "pick_markets self w markets no_effects = (Inr picked, s')"
  shows "history_fetches s' = markets_looked_at s' \<and>
         history_fetches s' \<le> length markets \<and>
         (int (length picked) < max_markets_per_run (cls self) \<longrightarrow>
            history_fetches s' = length markets)"
proof -
  have z: "history_fetches no_effects = 0" "markets_looked_at no_effects = 0"
    by (simp_all add: history_fetches_def markets_looked_at_def no_effects_def)
  from assms pick_loop_effects [of self w markets "[]" no_effects picked s']
  obtain n where "n \<le> length markets"
    and "history_fetches s' = history_fetches no_effects + n"
    and "markets_looked_at s' = markets_looked_at no_effects + n"
    and "int (length picked) < max_markets_per_run (cls self) \<longrightarrow> n = length markets"
    by (auto simp: pick_markets_def)
  with z show ?thesis by simp
qed

theorem history_fetch_per_market_witness:
  "pick_markets trader5 world0 [omen_deep, omen_dry] no_effects =
     (Inr [omen_deep],
      \<lparr>logged = [(INFO, LookingIfRecentlyBet ''Will it snow?''),
                 (INFO, VerifyingPredictability ''Will it snow?''),
                 (INFO, MarketIsPredictable ''Will it snow?''),
                 (INFO, LookingIfRecentlyBet ''Will it hail?''),
                 (INFO, VerifyingPredictability ''Will it hail?'')],
       calls = [OmenGetBets ''0xabc'' 913600, IsPredictable ''Will it snow?'',
                OmenGetBets ''0xabc'' 913600, IsPredictable ''Will it hail?'']\<rparr>) \<and>
   int (length [omen_deep]) < max_markets_per_run (cls trader5) \<and>
   history_fetches
     \<lparr>logged = [(INFO, LookingIfRecentlyBet ''Will it snow?''),
                (INFO, VerifyingPredictability ''Will it snow?''),
                (INFO, MarketIsPredictable ''Will it snow?''),
                (INFO, LookingIfRecentlyBet ''Will it hail?''),
                (INFO, VerifyingPredictability ''Will it hail?'')],
      calls = [OmenGetBets ''0xabc'' 913600, IsPredictable ''Will it snow?'',
               OmenGetBets ''0xabc'' 913600, IsPredictable ''Will it hail?'']\<rparr> =
     length [omen_deep, omen_dry]"
proof -
  have c: "int (length [omen_deep]) < max_markets_per_run (cls trader5)"
    by (simp add: trader5_def)
  from run_trader5 c history_fetch_per_market [OF run_trader5] show ?thesis by blast
qed

text \<open>
  C9, as stated, fails: a market that is not recently betted and that the oracle finds
  not predictable is left out, and the log holds only the two lines that announce the
  two tests, none that states the drop.
\<close>

theorem silent_drop_counterexample:
  "pick_markets trader5 world0 [omen_dry] no_effects =
     (Inr [],
      \<lparr>logged = [(INFO, LookingIfRecentlyBet ''Will it hail?''),
                 (INFO, VerifyingPredictability ''Will it hail?'')],
       calls = [OmenGetBets ''0xabc'' 913600, IsPredictable ''Will it hail?'']\<rparr>)"
  by (simp add: pick_markets_def world0_recently_betted questions0 Let_def trader5_def
      agent0_def effect_defs)

text \<open>
  C9, amended. The log of a run of \<open>pick_markets\<close> that returns is, for the markets
  the loop looks at, in their order, the lines of \<open>market_lines\<close>: the line that
  announces the recency test, then either the line that the market was recently betted
  and is skipped, or the line that announces the predictability test followed, only
  when the market is predictable, by the line that says so. All candidates are looked at
  when fewer than \<open>max_markets_per_run\<close> markets are picked.
\<close>

theorem pick_markets_log:
  assumes "pick_markets self w markets no_effects = (Inr picked, s')"
  shows "\<exists>n\<le>length markets.
           logged s' = concat (map (market_lines self w) (take n markets)) \<and>
           (int (length picked) < max_markets_per_run (cls self) \<longrightarrow> n = length markets)"
proof -
  from assms pick_loop_effects [of self w markets "[]" no_effects picked s']
  obtain n where "n \<le> length markets"
    and "logged s' = logged no_effects @ concat (map (market_lines self w) (take n markets))"
    and "int (length picked) < max_markets_per_run (cls self) \<longrightarrow> n = length markets"
    by (auto simp: pick_markets_def)
  then show ?thesis by (auto simp: no_effects_def)
qed

theorem pick_markets_log_witness:
  "pick_markets trader5 world0 [omen_deep, omen_dry] no_effects =
     (Inr [omen_deep],
      \<lparr>logged = [(INFO, LookingIfRecentlyBet ''Will it snow?''),
                 (INFO, VerifyingPredictability ''Will it snow?''),
                 (INFO, MarketIsPredictable ''Will it snow?''),
                 (INFO, LookingIfRecentlyBet ''Will it hail?''),
                 (INFO, VerifyingPredictability ''Will it hail?'')],
       calls = [OmenGetBets ''0xabc'' 913600, IsPredictable ''Will it snow?'',
                OmenGetBets ''0xabc'' 913600, IsPredictable ''Will it hail?'']\<rparr>) \<and>
   int (length [omen_deep]) < max_markets_per_run (cls trader5) \<and>
   [(INFO, LookingIfRecentlyBet ''Will it snow?''),
    (INFO, VerifyingPredictability ''Will it snow?''),
    (INFO, MarketIsPredictable ''Will it snow?''),
    (INFO, LookingIfRecentlyBet ''Will it hail?''),
    (INFO, VerifyingPredictability ''Will it hail?'')] =
   concat (map (market_lines trader5 world0) [omen_deep, omen_dry])"
proof -
  have c: "int (length [omen_deep]) < max_markets_per_run (cls trader5)"
    by (simp add: trader5_def)
  from pick_markets_log [OF run_trader5] c
  obtain n where n: "n = length [omen_deep, omen_dry]"
    and l: "[(INFO, LookingIfRecentlyBet ''Will it snow?''),
             (INFO, VerifyingPredictability ''Will it snow?''),
             (INFO, MarketIsPredictable ''Will it snow?''),
             (INFO, LookingIfRecentlyBet ''Will it hail?''),
             (INFO, VerifyingPredictability ''Will it hail?'')] =
            concat (map (market_lines trader5 world0) (take n [omen_deep, omen_dry]))"
    by auto
  from l have "[(INFO, LookingIfRecentlyBet ''Will it snow?''),
             (INFO, VerifyingPredictability ''Will it snow?''),
             (INFO, MarketIsPredictable ''Will it snow?''),
             (INFO, LookingIfRecentlyBet ''Will it hail?''),
             (INFO, VerifyingPredictability ''Will it hail?'')] =
            concat (map (market_lines trader5 world0) [omen_deep, omen_dry])"
    unfolding n by simp
  with run_trader5 c show ?thesis by blast
qed


end
